theory Spec2Isabelle
  imports Main "HOL-Library.Sublist" "HOL-Library.Word"
begin

section \<open>JavaScript values and their textual rendering\<close>

text \<open>
  The console wrappers of \<^verbatim>\<open>CodeExecutor.wrapCode\<close> and the \<^verbatim>\<open>captureLog\<close> of
  \<^verbatim>\<open>SimpleSandbox.execute\<close> turn every argument into text with
  \<^verbatim>\<open>typeof arg === 'object' ? JSON.stringify(arg) : String(arg)\<close> and join the texts of one
  call with a space. The values are the JSON-like ones: \<open>undefined\<close>, \<open>null\<close>, booleans,
  numbers, strings, arrays, and plain objects given as their properties in enumeration
  order. A number is an integer from \<open>-2^53\<close> to \<open>2^53 - 1\<close>, the signed value of a 54-bit
  word: these are the integers that a JavaScript number holds exactly and that the platform
  prints in plain decimal.
\<close>

datatype jsval =
    JUndefined
  | JNull
  | JBool bool
  | JNum "54 word"
  | JStr string
  | JArr "jsval list"
  | JObj "(string \<times> jsval) list"

fun show_nat :: "nat \<Rightarrow> string" where
  "show_nat n =
     (if n < 10 then [''0123456789'' ! n]
      else show_nat (n div 10) @ [''0123456789'' ! (n mod 10)])"

declare show_nat.simps [simp del]

definition show_int :: "int \<Rightarrow> string" where
  "show_int i = (if i < 0 then ''-'' @ show_nat (nat (- i)) else show_nat (nat i))"

text \<open>\<^verbatim>\<open>Array.prototype.join\<close> on an array of strings.\<close>

fun join :: "string \<Rightarrow> string list \<Rightarrow> string" where
  "join sep [] = []"
| "join sep [x] = x"
| "join sep (x # y # ys) = x @ sep @ join sep (y # ys)"

text \<open>The string quoting of \<^verbatim>\<open>JSON.stringify\<close> (QuoteJSONString), on one-byte code units.\<close>

definition hex2 :: "nat \<Rightarrow> string" where
  "hex2 n = [''0123456789abcdef'' ! (n div 16), ''0123456789abcdef'' ! (n mod 16)]"

definition escape_char :: "char \<Rightarrow> string" where
  "escape_char c =
     (if c = CHR 0x08 then [CHR 0x5C, CHR ''b'']
      else if c = CHR 0x09 then [CHR 0x5C, CHR ''t'']
      else if c = CHR 0x0A then [CHR 0x5C, CHR ''n'']
      else if c = CHR 0x0C then [CHR 0x5C, CHR ''f'']
      else if c = CHR 0x0D then [CHR 0x5C, CHR ''r'']
      else if c = CHR 0x22 then [CHR 0x5C, CHR 0x22]
      else if c = CHR 0x5C then [CHR 0x5C, CHR 0x5C]
      else if (of_char c :: nat) < 32 then [CHR 0x5C, CHR ''u'', CHR ''0'', CHR ''0''] @ hex2 (of_char c)
      else [c])"

definition quote :: "string \<Rightarrow> string" where
  "quote s = [CHR 0x22] @ concat (map escape_char s) @ [CHR 0x22]"

text \<open>
  \<^verbatim>\<open>JSON.stringify\<close>: \<open>None\<close> is the result \<open>undefined\<close>. An \<open>undefined\<close> array element
  is printed as \<open>null\<close>; an \<open>undefined\<close> property is left out.
\<close>

fun JSON_stringify :: "jsval \<Rightarrow> string option" where
  "JSON_stringify JUndefined = None"
| "JSON_stringify JNull = Some ''null''"
| "JSON_stringify (JBool b) = Some (if b then ''true'' else ''false'')"
| "JSON_stringify (JNum n) = Some (show_int (sint n))"
| "JSON_stringify (JStr s) = Some (quote s)"
| "JSON_stringify (JArr vs) =
     Some (''['' @ join '','' (map (\<lambda>v. case JSON_stringify v of None \<Rightarrow> ''null'' | Some t \<Rightarrow> t) vs) @ '']'')"
| "JSON_stringify (JObj kvs) =
     Some (''{'' @ join '',''
        (concat (map (\<lambda>kv. case JSON_stringify (snd kv) of
                              None \<Rightarrow> []
                            | Some t \<Rightarrow> [quote (fst kv) @ '':'' @ t]) kvs)) @ ''}'')"

text \<open>\<^verbatim>\<open>String(v)\<close>, for values with the built-in \<^verbatim>\<open>toString\<close>.\<close>

fun js_String :: "jsval \<Rightarrow> string" where
  "js_String JUndefined = ''undefined''"
| "js_String JNull = ''null''"
| "js_String (JBool b) = (if b then ''true'' else ''false'')"
| "js_String (JNum n) = show_int (sint n)"
| "js_String (JStr s) = s"
| "js_String (JArr vs) =
     join '','' (map (\<lambda>v. if v = JUndefined then [] else if v = JNull then [] else js_String v) vs)"
| "js_String (JObj kvs) = ''[object Object]''"

fun typeof :: "jsval \<Rightarrow> string" where
  "typeof JUndefined = ''undefined''"
| "typeof JNull = ''object''"
| "typeof (JBool b) = ''boolean''"
| "typeof (JNum n) = ''number''"
| "typeof (JStr s) = ''string''"
| "typeof (JArr vs) = ''object''"
| "typeof (JObj kvs) = ''object''"

text \<open>
  \<^verbatim>\<open>args.map(arg => typeof arg === 'object' ? JSON.stringify(arg) : String(arg)).join(' ')\<close>;
  \<^verbatim>\<open>join\<close> prints an \<open>undefined\<close> element as the empty string.
\<close>

definition render :: "jsval \<Rightarrow> string" where
  "render arg =
     (if typeof arg = ''object''
      then (case JSON_stringify arg of None \<Rightarrow> [] | Some t \<Rightarrow> t)
      else js_String arg)"

definition format_args :: "jsval list \<Rightarrow> string" where
  "format_args args = join '' '' (map render args)"


section \<open>Code fragments, seen by what they do\<close>

text \<open>
  The engine never inspects the text of \<^verbatim>\<open>code\<close>; what it reports depends on what the
  fragment does when it runs: the calls it makes to the three console functions, in order,
  how it ends, and what it does with the module it is pasted into.

  How it ends:
  \<^item> \<open>Completes\<close>: control reaches the end of the fragment.
  \<^item> \<open>Throws e\<close>: the error object \<open>e\<close> (an object with a string \<^verbatim>\<open>message\<close> and a string
    \<^verbatim>\<open>stack\<close>, as \<^verbatim>\<open>new Error("X")\<close> is) propagates out of the fragment.
  \<^item> \<open>Returns v\<close>: a \<^verbatim>\<open>return\<close> statement of the fragment leaves the function whose body
    the fragment has become.
  \<^item> \<open>Exits c\<close>: the fragment calls \<^verbatim>\<open>process.exit\<close>; \<open>c\<close> is the exit code that the exit event
    of the worker then carries, a signed 32-bit integer.
  \<^item> \<open>Hangs\<close>: the fragment never gives control back.
  \<^item> \<open>Malformed e\<close>: the fragment does not parse; \<open>e\<close> is the syntax error, and no
    statement of it runs.
  \<^item> \<open>Uncaught e\<close>: while the fragment is still waiting, a callback it scheduled
    throws the error object \<open>e\<close>, outside every \<^verbatim>\<open>try\<close> block.

  What it does with the wrapper. In the worker the text of the fragment stands inside the
  wrapper's own module, in its \<^verbatim>\<open>try\<close> block, so the wrapper's names \<^verbatim>\<open>logs\<close>, \<^verbatim>\<open>parentPort\<close>,
  \<^verbatim>\<open>process\<close>, \<^verbatim>\<open>memoryBefore\<close> and the replaced console functions are within its reach:
  \<^item> \<open>Plain\<close>: the fragment uses the wrapper only by calling the three console functions, and
    what it throws is an error object.
  \<^item> \<open>Posts_first m\<close>: the fragment itself calls \<^verbatim>\<open>parentPort.postMessage(m)\<close>, and \<open>m\<close> is the
    first message of the worker to reach the parent.
  \<^item> \<open>Declares_logs x\<close>: a \<^verbatim>\<open>let\<close> or \<^verbatim>\<open>const\<close> declaration at the top level of the fragment
    binds the name \<^verbatim>\<open>logs\<close> in the \<^verbatim>\<open>try\<close> block, so that the \<^verbatim>\<open>logs\<close> of the wrapper's success
    message is the fragment's value \<open>x\<close>: a list of strings, or \<open>None\<close> for a value that counts
    as false. The console functions and the \<^verbatim>\<open>catch\<close> block still see the wrapper's array.
  \<^item> \<open>Other u\<close>: anything else (the fragment changes the wrapper's array or its console
    functions, hides \<^verbatim>\<open>parentPort\<close> or \<^verbatim>\<open>process\<close>, throws a value that is no error object,
    ...); \<open>u\<close> is what the worker is then seen to do.
  The fields \<open>calls\<close> and \<open>ending\<close> describe the run of the fragment's own statements.
\<close>

datatype channel = ConsoleLog | ConsoleError | ConsoleWarn

record js_error =
  message :: string
  stack :: string

datatype ending =
    Completes
  | Throws js_error
  | Returns jsval
  | Exits "32 word"
  | Hangs
  | Malformed js_error
  | Uncaught js_error

text \<open>
  The message a worker posts to its parent: \<open>m_success\<close> says whether its \<^verbatim>\<open>success\<close> counts as
  true, and a field that the posted object lacks is \<open>None\<close>. For \<^verbatim>\<open>logs\<close>, which \<^verbatim>\<open>execute\<close>
  reads through \<^verbatim>\<open>||\<close>, a value that counts as false is \<open>None\<close> as well; \<^verbatim>\<open>memoryUsed\<close> is read
  through \<^verbatim>\<open>|| 0\<close>, so that 0 and a missing field give the same.
\<close>

record report =
  m_success :: bool
  m_output :: "jsval option"
  m_logs :: "string list option"
  m_error :: "string option"
  m_memoryUsed :: "int option"

text \<open>
  What a worker does, as its parent sees it: it posts a message, it dies of an uncaught
  exception, it stops with an exit code without a message, or it does nothing at all.
\<close>

datatype unit_behaviour = Posts report | Dies js_error | Stops "32 word" | Silent

datatype conduct =
    Plain
  | Posts_first report
  | Declares_logs "string list option"
  | Other unit_behaviour

record fragment =
  calls :: "(channel \<times> jsval list) list"
  conduct :: conduct
  ending :: ending
  memoryBefore :: int
  memoryAfter :: int

section \<open>\<^verbatim>\<open>CodeExecutor.wrapCode\<close>: the program the worker runs\<close>

text \<open>The three replaced console functions: each pushes one line onto \<^verbatim>\<open>logs\<close>.\<close>

fun console_push :: "channel \<Rightarrow> jsval list \<Rightarrow> string" where
  "console_push ConsoleLog args = format_args args"
| "console_push ConsoleError args = ''ERROR: '' @ format_args args"
| "console_push ConsoleWarn args = ''WARN: '' @ format_args args"

definition worker_logs :: "(channel \<times> jsval list) list \<Rightarrow> string list" where
  "worker_logs cs = map (\<lambda>(c, args). console_push c args) cs"

text \<open>
  The wrapped program runs the fragment as the body of \<^verbatim>\<open>(async () => { try { ... } catch ... })()\<close>.
  At the end of the \<^verbatim>\<open>try\<close> block it posts the success message, with what \<^verbatim>\<open>logs\<close> denotes
  there (\<open>try_logs\<close>); the \<^verbatim>\<open>catch\<close> block posts the failure message, with the wrapper's
  array. A \<^verbatim>\<open>return\<close> of the fragment leaves the function before either \<^verbatim>\<open>postMessage\<close>, and
  the worker, with nothing left to do, exits with code 0.
\<close>

definition wrapper_report :: "fragment \<Rightarrow> string list option \<Rightarrow> unit_behaviour" where
  "wrapper_report f try_logs =
     (case ending f of
        Completes \<Rightarrow>
          Posts \<lparr>m_success = True, m_output = Some JNull, m_logs = try_logs,
                 m_error = None, m_memoryUsed = Some (memoryAfter f - memoryBefore f)\<rparr>
      | Throws e \<Rightarrow>
          Posts \<lparr>m_success = False, m_output = None, m_logs = Some (worker_logs (calls f)),
                 m_error = Some (message e @ [CHR 0x0A] @ stack e), m_memoryUsed = None\<rparr>
      | Returns v \<Rightarrow> Stops 0
      | Exits c \<Rightarrow> Stops c
      | Hangs \<Rightarrow> Silent
      | Malformed e \<Rightarrow> Dies e
      | Uncaught e \<Rightarrow> Dies e)"

text \<open>
  The worker as a whole. A message that the fragment posts first is the one the parent
  resolves with; a fragment that does anything else with the wrapper makes the worker do
  whatever it is seen to do.
\<close>

definition wrapCode :: "fragment \<Rightarrow> unit_behaviour" where
  "wrapCode f =
     (case conduct f of
        Plain \<Rightarrow> wrapper_report f (Some (worker_logs (calls f)))
      | Declares_logs x \<Rightarrow> wrapper_report f x
      | Posts_first m \<Rightarrow> Posts m
      | Other u \<Rightarrow> u)"

section \<open>\<^verbatim>\<open>CodeExecutor.executeInWorker\<close>: the promise, the timer and the three handlers\<close>

text \<open>
  A property of the options object is absent, present with the value \<^verbatim>\<open>undefined\<close>, or
  present with a value. A timeout is a whole number of milliseconds from 0 to \<open>2^53 - 1\<close>,
  the value of a 53-bit word.
\<close>

datatype 'a property = Absent | Undefined | Value 'a

record ExecutionOptions =
  timeout :: "53 word property"
  maxMemory :: "nat property"
  allowedPaths :: "string list property"

datatype event =
    TimerFires
  | WorkerMessage report
  | WorkerError js_error
  | WorkerExit "32 word"

datatype settled = Resolved report | Rejected js_error

text \<open>
  The state of one call: the promise (\<open>None\<close> while pending), whether the timeout is still
  scheduled, whether \<^verbatim>\<open>worker.terminate()\<close> has been called, and whether the worker thread
  is still running.
\<close>

record launch =
  promise :: "settled option"
  timer_armed :: bool
  terminate_called :: bool
  worker_running :: bool

text \<open>A promise settles once: \<^verbatim>\<open>resolve\<close> and \<^verbatim>\<open>reject\<close> on a settled promise do nothing.\<close>

definition resolve :: "report \<Rightarrow> launch \<Rightarrow> launch" where
  "resolve r L = (case promise L of None \<Rightarrow> L\<lparr>promise := Some (Resolved r)\<rparr> | Some s \<Rightarrow> L)"

definition reject :: "js_error \<Rightarrow> launch \<Rightarrow> launch" where
  "reject e L = (case promise L of None \<Rightarrow> L\<lparr>promise := Some (Rejected e)\<rparr> | Some s \<Rightarrow> L)"

definition clearTimeout :: "launch \<Rightarrow> launch" where
  "clearTimeout L = L\<lparr>timer_armed := False\<rparr>"

definition worker_terminate :: "launch \<Rightarrow> launch" where
  "worker_terminate L = L\<lparr>terminate_called := True, worker_running := False\<rparr>"

text \<open>\<^verbatim>\<open>new Error(msg)\<close>; the frames of its stack are left out, nothing reads them.\<close>

definition new_Error :: "string \<Rightarrow> js_error" where
  "new_Error msg = \<lparr>message = msg, stack = ''Error: '' @ msg\<rparr>"

definition timeout_text :: "ExecutionOptions \<Rightarrow> string" where
  "timeout_text options =
     (case timeout options of Value t \<Rightarrow> show_nat (unat t) | _ \<Rightarrow> ''undefined'')"

definition on_timeout :: "ExecutionOptions \<Rightarrow> launch \<Rightarrow> launch" where
  "on_timeout options L =
     reject (new_Error (''Execution timeout after '' @ timeout_text options @ ''ms''))
       (worker_terminate L)"

definition on_message :: "report \<Rightarrow> launch \<Rightarrow> launch" where
  "on_message r L = resolve r (worker_terminate (clearTimeout L))"

definition on_error :: "js_error \<Rightarrow> launch \<Rightarrow> launch" where
  "on_error e L = reject e (clearTimeout L)"

definition on_exit :: "32 word \<Rightarrow> launch \<Rightarrow> launch" where
  "on_exit c L =
     (if c \<noteq> 0
      then reject (new_Error (''Worker stopped with exit code '' @ show_int (sint c))) (clearTimeout L)
      else clearTimeout L)"

text \<open>
  The platform runs one callback per event. A timeout that was cleared never fires, and one
  that fires is spent. When the \<^verbatim>\<open>error\<close> or the \<^verbatim>\<open>exit\<close> event is emitted the worker
  thread has already stopped: an uncaught exception terminates the worker.
\<close>

fun deliver :: "ExecutionOptions \<Rightarrow> launch \<Rightarrow> event \<Rightarrow> launch" where
  "deliver options L TimerFires =
     (if timer_armed L then on_timeout options (L\<lparr>timer_armed := False\<rparr>) else L)"
| "deliver options L (WorkerMessage r) = on_message r L"
| "deliver options L (WorkerError e) = on_error e (L\<lparr>worker_running := False\<rparr>)"
| "deliver options L (WorkerExit c) = on_exit c (L\<lparr>worker_running := False\<rparr>)"

text \<open>
  \<^verbatim>\<open>if (options.timeout)\<close>: the timer is set for a timeout that is a number other than 0.
  The parameter \<^verbatim>\<open>logs\<close> is the caller's array; no handler touches it. In place of
  \<^verbatim>\<open>scriptPath\<close> stand the events that the worker running that script, and the timer, give
  rise to, in the order in which their callbacks run.
\<close>

definition timer_wanted :: "ExecutionOptions \<Rightarrow> bool" where
  "timer_wanted options = (case timeout options of Value t \<Rightarrow> t \<noteq> 0 | _ \<Rightarrow> False)"

definition executeInWorker :: "ExecutionOptions \<Rightarrow> string list \<Rightarrow> event list \<Rightarrow> launch" where
  "executeInWorker options logs0 events =
     foldl (deliver options)
       \<lparr>promise = None, timer_armed = timer_wanted options,
        terminate_called = False, worker_running = True\<rparr>
       events"

section \<open>The world around one call\<close>

text \<open>
  What \<^verbatim>\<open>execute\<close> reads from its surroundings: the temporary directory and the random
  bytes that name the temporary file, the files that exist, whether \<^verbatim>\<open>writeFile\<close> and
  \<^verbatim>\<open>unlink\<close> fail, whether the worker fails to start, whether the timeout callback runs
  before the first event of the worker, and the two readings of the clock.
\<close>

record world =
  tmpdir :: string
  random_hex :: string
  files :: "string set"
  writeFile_error :: "js_error option"
  worker_start_error :: "js_error option"
  timer_first :: bool
  unlink_fails :: bool
  now_start :: int
  now_end :: int

text \<open>
  The events the platform emits for a worker, in order. A worker that was terminated, or
  that died of an uncaught exception, exits with code 1.
\<close>

fun unit_events :: "unit_behaviour \<Rightarrow> event list" where
  "unit_events (Posts r) = [WorkerMessage r, WorkerExit 1]"
| "unit_events (Dies e) = [WorkerError e, WorkerExit 1]"
| "unit_events (Stops c) = [WorkerExit c]"
| "unit_events Silent = []"

definition emitted :: "world \<Rightarrow> ExecutionOptions \<Rightarrow> unit_behaviour \<Rightarrow> event list" where
  "emitted w options u =
     (case worker_start_error w of
        Some e \<Rightarrow> [WorkerError e, WorkerExit 1]
      | None \<Rightarrow>
          if timer_wanted options \<and> (timer_first w \<or> u = Silent)
          then [TimerFires, WorkerExit 1]
          else unit_events u)"

section \<open>\<^verbatim>\<open>CodeExecutor.execute\<close>\<close>

record ExecutionStats =
  duration :: int
  memoryUsed :: int

record ExecutionResult =
  success :: bool
  "output" :: "jsval option"
  logs :: "string list"
  error :: "string option"
  stats :: ExecutionStats

text \<open>
  How a call ends for its caller: it returns a result, its promise never settles, or the
  host process is gone before it could return.
\<close>

datatype outcome = Returned ExecutionResult | NeverSettles | HostDown

text \<open>What is left when the call is over: the outcome, the files, and the launched worker if any.\<close>

record final =
  result :: outcome
  files_after :: "string set"
  worker :: "launch option"

definition defaultOptions :: ExecutionOptions where
  "defaultOptions =
     \<lparr>timeout = Value 30000, maxMemory = Value (512 * 1024 * 1024),
      allowedPaths = Value [''./servers'', ''./skills'', ''./cache'']\<rparr>"

text \<open>
  \<^verbatim>\<open>{ ...this.defaultOptions, ...options }\<close>: every property that \<^verbatim>\<open>options\<close> has, one with the
  value \<^verbatim>\<open>undefined\<close> included, replaces the default.
\<close>

definition spread :: "'a property \<Rightarrow> 'a property \<Rightarrow> 'a property" where
  "spread d p = (case p of Absent \<Rightarrow> d | Undefined \<Rightarrow> Undefined | Value v \<Rightarrow> Value v)"

definition merge_options :: "ExecutionOptions \<Rightarrow> ExecutionOptions \<Rightarrow> ExecutionOptions" where
  "merge_options d options =
     \<lparr>timeout = spread (timeout d) (timeout options),
      maxMemory = spread (maxMemory d) (maxMemory options),
      allowedPaths = spread (allowedPaths d) (allowedPaths options)\<rparr>"

definition tempFile :: "world \<Rightarrow> string" where
  "tempFile w = tmpdir w @ ''/'' @ ''pendo-exec-'' @ random_hex w @ ''.mjs''"

text \<open>The \<^verbatim>\<open>catch\<close> block of \<^verbatim>\<open>execute\<close>.\<close>

definition caught :: "world \<Rightarrow> string list \<Rightarrow> js_error \<Rightarrow> ExecutionResult" where
  "caught w logs0 e =
     \<lparr>success = False, output = None, logs = logs0, error = Some (message e),
      stats = \<lparr>duration = now_end w - now_start w, memoryUsed = 0\<rparr>\<rparr>"

text \<open>The two \<^verbatim>\<open>return\<close> statements after the worker's message has arrived.\<close>

definition normalize :: "world \<Rightarrow> string list \<Rightarrow> report \<Rightarrow> ExecutionResult" where
  "normalize w logs0 r =
     (if m_success r
      then \<lparr>success = True, output = m_output r,
            logs = (case m_logs r of Some ls \<Rightarrow> ls | None \<Rightarrow> logs0),
            error = None,
            stats = \<lparr>duration = now_end w - now_start w,
                     memoryUsed = (case m_memoryUsed r of Some n \<Rightarrow> n | None \<Rightarrow> 0)\<rparr>\<rparr>
      else \<lparr>success = False, output = None,
            logs = (case m_logs r of Some ls \<Rightarrow> ls | None \<Rightarrow> logs0),
            error = m_error r,
            stats = \<lparr>duration = now_end w - now_start w,
                     memoryUsed = (case m_memoryUsed r of Some n \<Rightarrow> n | None \<Rightarrow> 0)\<rparr>\<rparr>)"

text \<open>
  \<^verbatim>\<open>execute\<close>: wrap, write the temporary file, await the worker, unlink, normalise. A
  rejection of \<^verbatim>\<open>writeFile\<close> or of \<^verbatim>\<open>executeInWorker\<close> jumps to the \<^verbatim>\<open>catch\<close> block,
  past the \<^verbatim>\<open>unlink\<close>; a failing \<^verbatim>\<open>unlink\<close> is ignored. The worker runs the file just
  written, that is the wrapped program.
\<close>

definition execute :: "world \<Rightarrow> fragment \<Rightarrow> ExecutionOptions \<Rightarrow> final" where
  "execute w code options =
     (let opts = merge_options defaultOptions options;
          logs0 = [];
          wrappedCode = wrapCode code
      in case writeFile_error w of
           Some e \<Rightarrow>
             \<lparr>result = Returned (caught w logs0 e), files_after = files w, worker = None\<rparr>
         | None \<Rightarrow>
             (let fs = insert (tempFile w) (files w);
                  L = executeInWorker opts logs0 (emitted w opts wrappedCode)
              in case promise L of
                   None \<Rightarrow> \<lparr>result = NeverSettles, files_after = fs, worker = Some L\<rparr>
                 | Some (Rejected e) \<Rightarrow>
                     \<lparr>result = Returned (caught w logs0 e), files_after = fs, worker = Some L\<rparr>
                 | Some (Resolved r) \<Rightarrow>
                     \<lparr>result = Returned (normalize w logs0 r),
                      files_after = (if unlink_fails w then fs else fs - {tempFile w}),
                      worker = Some L\<rparr>))"

section \<open>\<^verbatim>\<open>SimpleSandbox.execute\<close>\<close>




section \<open>Example calls\<close>

text \<open>
  A world in which nothing fails, one in which the timeout callback runs before anything
  of the worker arrives, and the fragments of the scenarios:
  \<^verbatim>\<open>console.log('A'); console.log('B');\<close>,
  \<^verbatim>\<open>console.log('A', 1, -7, true, null, undefined, {k: 'v"', u: undefined}, [1, undefined, 'x\n'])\<close>,
  \<^verbatim>\<open>console.log('before'); throw new Error('boom')\<close>,
  \<^verbatim>\<open>console.log('A'); while(true){}\<close>,
  \<^verbatim>\<open>console.log('A'); return;\<close>,
  \<^verbatim>\<open>setTimeout(() => { throw new Error() }, 0); await new Promise(r => setTimeout(r, 1000))\<close>,
  the same with \<^verbatim>\<open>new Error('boom')\<close>,
  \<^verbatim>\<open>console.log('a'); console.error('b'); console.warn('c', {k: 1})\<close>,
  \<^verbatim>\<open>console.log('A'); const logs = ['X']\<close> and
  \<^verbatim>\<open>parentPort.postMessage({success: true, output: 42})\<close>.
\<close>

definition demo_world :: world where
  "demo_world =
     \<lparr>tmpdir = ''/tmp'', random_hex = ''00112233aabbccdd'', files = {},
      writeFile_error = None, worker_start_error = None, timer_first = False,
      unlink_fails = False, now_start = 1000, now_end = 1042\<rparr>"

definition deadline_world :: world where
  "deadline_world =
     \<lparr>tmpdir = ''/tmp'', random_hex = ''00112233aabbccdd'', files = {},
      writeFile_error = None, worker_start_error = None, timer_first = True,
      unlink_fails = False, now_start = 1000, now_end = 1205\<rparr>"

definition no_options :: ExecutionOptions where
  "no_options = \<lparr>timeout = Absent, maxMemory = Absent, allowedPaths = Absent\<rparr>"

definition timeout_200 :: ExecutionOptions where
  "timeout_200 = \<lparr>timeout = Value 200, maxMemory = Absent, allowedPaths = Absent\<rparr>"

definition two_logs :: fragment where
  "two_logs =
     \<lparr>calls = [(ConsoleLog, [JStr ''A'']), (ConsoleLog, [JStr ''B''])], conduct = Plain,
      ending = Completes, memoryBefore = 100, memoryAfter = 164\<rparr>"



definition log_then_loop :: fragment where
  "log_then_loop =
     \<lparr>calls = [(ConsoleLog, [JStr ''A''])], conduct = Plain, ending = Hangs,
      memoryBefore = 100, memoryAfter = 100\<rparr>"

definition log_then_return :: fragment where
  "log_then_return =
     \<lparr>calls = [(ConsoleLog, [JStr ''A''])], conduct = Plain, ending = Returns JUndefined,
      memoryBefore = 100, memoryAfter = 164\<rparr>"





definition posts_output :: fragment where
  "posts_output =
     \<lparr>calls = [],
      conduct = Posts_first \<lparr>m_success = True, m_output = Some (JNum 42), m_logs = None,
                              m_error = None, m_memoryUsed = None\<rparr>,
      ending = Completes, memoryBefore = 100, memoryAfter = 164\<rparr>"

section \<open>The promise settles once, with the first outcome\<close>

lemmas handler_defs = on_timeout_def on_message_def on_error_def on_exit_def
  resolve_def reject_def clearTimeout_def worker_terminate_def

lemma deliver_settled: "promise L = Some s \<Longrightarrow> promise (deliver options L ev) = Some s"
  by (cases ev) (simp_all add: handler_defs)

lemma foldl_deliver_settled:
  "promise L = Some s \<Longrightarrow> promise (foldl (deliver options) L evs) = Some s"
  by (induction evs arbitrary: L) (simp_all add: deliver_settled)

lemma message_first:
  "promise (executeInWorker options logs0 (WorkerMessage r # rest)) = Some (Resolved r)"
  by (simp add: executeInWorker_def handler_defs foldl_deliver_settled)

lemma error_first:
  "promise (executeInWorker options logs0 (WorkerError e # rest)) = Some (Rejected e)"
  by (simp add: executeInWorker_def handler_defs foldl_deliver_settled)

lemma timer_first_rejects:
  "timer_wanted options \<Longrightarrow>
   promise (executeInWorker options logs0 (TimerFires # rest)) =
     Some (Rejected (new_Error (''Execution timeout after '' @ timeout_text options @ ''ms'')))"
  by (simp add: executeInWorker_def handler_defs foldl_deliver_settled)

lemma exit_first:
  "c \<noteq> 0 \<Longrightarrow>
   promise (executeInWorker options logs0 (WorkerExit c # rest)) =
     Some (Rejected (new_Error (''Worker stopped with exit code '' @ show_int (sint c))))"
  by (simp add: executeInWorker_def handler_defs foldl_deliver_settled)

lemma clean_exit_pending:
  "promise (executeInWorker options logs0 [WorkerExit 0]) = None"
  by (simp add: executeInWorker_def handler_defs)

lemma no_event_pending:
  "promise (executeInWorker options logs0 []) = None"
  by (simp add: executeInWorker_def)

section \<open>A report that arrives first\<close>

lemma emitted_report:
  assumes "worker_start_error w = None" and "\<not> timer_first w"
  shows "emitted w opts (Posts rep) = [WorkerMessage rep, WorkerExit 1]"
  using assms by (simp add: emitted_def)


lemma emitted_timer:
  assumes "worker_start_error w = None" and "timer_wanted opts" and "timer_first w \<or> u = Silent"
  shows "emitted w opts u = [TimerFires, WorkerExit 1]"
  using assms by (auto simp add: emitted_def)


text \<open>The platform functions at values that exercise each of their cases.\<close>

lemma quote_examples:
  "quote [CHR 0x08, CHR 0x09, CHR 0x0A, CHR 0x0C, CHR 0x0D, CHR 0x22, CHR 0x5C, CHR 0x01, CHR 0x1F,
          CHR 0x7F, CHR ''a'']
   = [CHR 0x22, CHR 0x5C, CHR ''b'', CHR 0x5C, CHR ''t'', CHR 0x5C, CHR ''n'', CHR 0x5C, CHR ''f'',
      CHR 0x5C, CHR ''r'', CHR 0x5C, CHR 0x22, CHR 0x5C, CHR 0x5C]
     @ [CHR 0x5C] @ ''u0001'' @ [CHR 0x5C] @ ''u001f'' @ [CHR 0x7F, CHR ''a'', CHR 0x22]"
  by (simp add: quote_def escape_char_def hex2_def)

lemma js_String_examples:
  "js_String (JArr [JNum 1, JNull, JUndefined, JArr [JNum 2, JNum (- 3)], JStr ''x'', JBool False])
     = ''1,,,2,-3,x,false''
   \<and> js_String (JObj [(''k'', JNum 1)]) = ''[object Object]''
   \<and> js_String JNull = ''null'' \<and> js_String JUndefined = ''undefined''
   \<and> js_String (JNum 9007199254740991) = ''9007199254740991''
   \<and> js_String (JNum (- 9007199254740992)) = ''-9007199254740992''"
  by (simp add: show_int_def show_nat.simps)

lemma JSON_stringify_examples:
  "JSON_stringify (JObj [(''a'', JArr [JNum 1, JUndefined, JNull, JBool True, JObj []]),
                         (''u'', JUndefined), (''s'', JStr ''x'')])
     = Some (''{'' @ [CHR 0x22] @ ''a'' @ [CHR 0x22] @ '':[1,null,null,true,{}],''
               @ [CHR 0x22] @ ''s'' @ [CHR 0x22] @ '':'' @ [CHR 0x22] @ ''x'' @ [CHR 0x22] @ ''}'')
   \<and> JSON_stringify JUndefined = None \<and> JSON_stringify (JArr []) = Some ''[]''"
  by (simp add: quote_def escape_char_def show_int_def show_nat.simps)




lemmas run_defs = execute_def Let_def wrapCode_def wrapper_report_def emitted_def
  merge_options_def spread_def defaultOptions_def timer_wanted_def timeout_text_def
  normalize_def caught_def new_Error_def worker_logs_def format_args_def render_def
  message_first error_first timer_first_rejects clean_exit_pending no_event_pending




section \<open>What a settled promise says about the worker\<close>

lemma deliver_invariant:
  assumes "promise L \<noteq> None \<Longrightarrow> \<not> worker_running L \<and> \<not> timer_armed L"
    and "promise (deliver options L ev) \<noteq> None"
  shows "\<not> worker_running (deliver options L ev) \<and> \<not> timer_armed (deliver options L ev)"
  using assms by (cases ev) (auto simp add: handler_defs split: option.splits if_splits)

lemma foldl_deliver_invariant:
  assumes "promise L \<noteq> None \<Longrightarrow> \<not> worker_running L \<and> \<not> timer_armed L"
    and "promise (foldl (deliver options) L evs) \<noteq> None"
  shows "\<not> worker_running (foldl (deliver options) L evs) \<and> \<not> timer_armed (foldl (deliver options) L evs)"
  using assms
proof (induction evs arbitrary: L)
  case Nil
  then show ?case by simp
next
  case (Cons ev evs)
  have "promise (deliver options L ev) \<noteq> None \<Longrightarrow>
        \<not> worker_running (deliver options L ev) \<and> \<not> timer_armed (deliver options L ev)"
    using Cons.prems(1) by (rule deliver_invariant)
  then show ?case using Cons.IH [of "deliver options L ev"] Cons.prems(2) by simp
qed

text \<open>What the promise of \<^verbatim>\<open>executeInWorker\<close> can be, for the events of one worker.\<close>

lemma resolved_is_report:
  assumes "promise (executeInWorker opts logs0 (emitted w opts u)) = Some (Resolved r)"
  shows "u = Posts r"
proof (cases "worker_start_error w")
  case (Some e)
  then show ?thesis using assms by (simp add: emitted_def error_first)
next
  case None
  show ?thesis
  proof (cases "timer_wanted opts \<and> (timer_first w \<or> u = Silent)")
    case True
    then show ?thesis using assms None by (simp add: emitted_def timer_first_rejects)
  next
    case False
    then have ev: "emitted w opts u = unit_events u" using None by (auto simp add: emitted_def)
    show ?thesis
    proof (cases u)
      case (Posts r')
      then show ?thesis using assms ev None by (simp add: message_first)
    next
      case (Dies e)
      then show ?thesis using assms ev by (simp add: error_first)
    next
      case (Stops c)
      then show ?thesis using assms ev
        by (cases "c = 0") (simp_all add: clean_exit_pending exit_first)
    next
      case Silent
      then show ?thesis using assms ev by (simp add: no_event_pending)
    qed
  qed
qed

lemma rejected_cases:
  assumes "promise (executeInWorker opts logs0 (emitted w opts u)) = Some (Rejected e)"
  shows "worker_start_error w = Some e \<or> u = Dies e
       \<or> (timer_wanted opts
            \<and> e = new_Error (''Execution timeout after '' @ timeout_text opts @ ''ms''))
       \<or> (\<exists>c. c \<noteq> 0 \<and> u = Stops c
            \<and> e = new_Error (''Worker stopped with exit code '' @ show_int (sint c)))"
proof (cases "worker_start_error w")
  case (Some e')
  then show ?thesis using assms by (simp add: emitted_def error_first)
next
  case None
  show ?thesis
  proof (cases "timer_wanted opts \<and> (timer_first w \<or> u = Silent)")
    case True
    then show ?thesis using assms None by (simp add: emitted_def timer_first_rejects)
  next
    case False
    then have ev: "emitted w opts u = unit_events u" using None by (auto simp add: emitted_def)
    show ?thesis
    proof (cases u)
      case (Posts r')
      then show ?thesis using assms ev by (simp add: message_first)
    next
      case (Dies e')
      then show ?thesis using assms ev by (simp add: error_first)
    next
      case (Stops c)
      then show ?thesis using assms ev
        by (cases "c = 0") (auto simp add: clean_exit_pending exit_first)
    next
      case Silent
      then show ?thesis using assms ev by (simp add: no_event_pending)
    qed
  qed
qed

lemma execute_returned_cases:
  assumes "result (execute w code options) = Returned r"
  shows "(\<exists>rep. wrapCode code = Posts rep \<and> r = normalize w [] rep)
       \<or> (\<exists>e. r = caught w [] e \<and>
              (writeFile_error w = Some e \<or> worker_start_error w = Some e \<or> wrapCode code = Dies e
               \<or> (timer_wanted (merge_options defaultOptions options)
                    \<and> e = new_Error (''Execution timeout after ''
                        @ timeout_text (merge_options defaultOptions options) @ ''ms''))
               \<or> (\<exists>c. c \<noteq> 0 \<and> wrapCode code = Stops c
                    \<and> e = new_Error (''Worker stopped with exit code '' @ show_int (sint c)))))"
proof (cases "writeFile_error w")
  case (Some e)
  then show ?thesis using assms by (auto simp add: execute_def)
next
  case None
  let ?opts = "merge_options defaultOptions options"
  let ?L = "executeInWorker ?opts [] (emitted w ?opts (wrapCode code))"
  show ?thesis
  proof (cases "promise ?L")
    case None
    then show ?thesis using assms \<open>writeFile_error w = None\<close> by (simp add: execute_def Let_def)
  next
    case (Some s)
    show ?thesis
    proof (cases s)
      case (Rejected e)
      then have "r = caught w [] e"
        using assms Some \<open>writeFile_error w = None\<close> by (simp add: execute_def Let_def)
      then show ?thesis
        using rejected_cases [of ?opts "[]" w "wrapCode code" e] Some Rejected by blast
    next
      case (Resolved rep)
      then have "wrapCode code = Posts rep"
        using Some by (simp add: resolved_is_report)
      moreover have "r = normalize w [] rep"
        using assms(1) Some Resolved \<open>writeFile_error w = None\<close> by (simp add: execute_def Let_def)
      ultimately show ?thesis by blast
    qed
  qed
qed

lemma execute_success_cases:
  assumes "result (execute w code options) = Returned r" and "success r"
  shows "\<exists>rep. wrapCode code = Posts rep \<and> m_success rep \<and> r = normalize w [] rep"
proof -
  have "\<not> success (caught w [] e)" for e
    by (simp add: caught_def)
  then obtain rep where rep: "wrapCode code = Posts rep" "r = normalize w [] rep"
    using execute_returned_cases [OF assms(1)] assms(2) by blast
  then have "m_success rep"
    using assms(2) by (simp add: normalize_def split: if_splits)
  then show ?thesis using rep by blast
qed

text \<open>What the wrapper itself posts.\<close>

lemma wrapper_posts_cases:
  assumes "wrapCode code = Posts rep"
    and "conduct code = Plain \<or> (\<exists>x. conduct code = Declares_logs x)"
  shows "(ending code = Completes \<and> m_success rep \<and> m_output rep = Some JNull \<and> m_error rep = None)
       \<or> (\<exists>e. ending code = Throws e \<and> \<not> m_success rep
              \<and> m_error rep = Some (message e @ [CHR 0x0A] @ stack e))"
  using assms by (cases "ending code") (auto simp add: wrapCode_def wrapper_report_def)




section \<open>The deadline\<close>

lemma timeout_text_contains: "sublist ''timeout'' (''Execution timeout after '' @ xs)"
proof -
  have "sublist ''timeout'' (''Execution '' @ ''timeout'' @ ('' after '' @ xs))"
    by (rule sublist_appendI)
  then show ?thesis by simp
qed

lemma timer_path_state:
  assumes "timer_wanted opts"
  shows "terminate_called (executeInWorker opts logs0 [TimerFires, WorkerExit 1])
       \<and> \<not> worker_running (executeInWorker opts logs0 [TimerFires, WorkerExit 1])"
  using assms by (simp add: executeInWorker_def handler_defs)

text \<open>
  Claim C3. When the timeout callback runs before any event of the worker, for a timeout
  \<open>t\<close> other than 0, \<^verbatim>\<open>worker.terminate()\<close> is called and \<^verbatim>\<open>execute\<close> returns \<open>success = false\<close>
  with the text \<open>Execution timeout after t ms\<close>, which contains the decimal digits of \<open>t\<close> and
  the word \<open>timeout\<close>. Only the first outcome is observed: whatever events follow the
  timeout, a message of the worker included, the promise stays rejected with the timeout;
  and whatever follows a message that came first, the timeout included, the promise stays
  resolved with that message.
\<close>

theorem timeout_wins_race:
  assumes "writeFile_error w = None" and "worker_start_error w = None"
    and "timeout (merge_options defaultOptions options) = Value t" and "t \<noteq> 0"
    and "timer_first w"
  shows "\<exists>r L msg. result (execute w code options) = Returned r \<and> \<not> success r \<and> error r = Some msg
           \<and> msg = ''Execution timeout after '' @ show_nat (unat t) @ ''ms''
           \<and> sublist (show_nat (unat t)) msg \<and> sublist ''timeout'' msg
           \<and> worker (execute w code options) = Some L \<and> terminate_called L \<and> \<not> worker_running L
           \<and> (\<forall>rest. promise (executeInWorker (merge_options defaultOptions options) [] (TimerFires # rest))
                  = Some (Rejected (new_Error msg)))
           \<and> (\<forall>rep rest. promise (executeInWorker (merge_options defaultOptions options) [] (WorkerMessage rep # rest))
                  = Some (Resolved rep))"
proof -
  let ?opts = "merge_options defaultOptions options"
  let ?msg = "''Execution timeout after '' @ show_nat (unat t) @ ''ms''"
  let ?evs = "[TimerFires, WorkerExit 1]"
  have wanted: "timer_wanted ?opts"
    using assms(3,4) by (simp add: timer_wanted_def)
  have shown: "timeout_text ?opts = show_nat (unat t)"
    using assms(3) by (simp add: timeout_text_def)
  have ev: "emitted w ?opts (wrapCode code) = ?evs"
    using assms(2,5) wanted by (simp add: emitted_timer)
  have first: "promise (executeInWorker ?opts [] (TimerFires # rest)) = Some (Rejected (new_Error ?msg))" for rest
    using timer_first_rejects [OF wanted] shown by simp
  have res: "result (execute w code options) = Returned (caught w [] (new_Error ?msg))"
    and wk: "worker (execute w code options) = Some (executeInWorker ?opts [] ?evs)"
    using assms(1) ev first [of "[WorkerExit 1]"] by (simp_all add: execute_def Let_def)
  have "\<not> success (caught w [] (new_Error ?msg))" and "error (caught w [] (new_Error ?msg)) = Some ?msg"
    by (simp_all add: caught_def new_Error_def)
  moreover have "sublist (show_nat (unat t)) ?msg" by (rule sublist_appendI)
  moreover have "sublist ''timeout'' ?msg" by (rule timeout_text_contains)
  ultimately show ?thesis
    using res wk timer_path_state [OF wanted, of "[]"] first message_first by blast
qed

theorem timeout_wins_race_witness:
  "\<exists>r. result (execute deadline_world two_logs timeout_200) = Returned r \<and> \<not> success r
      \<and> error r = Some ''Execution timeout after 200ms''
      \<and> sublist ''200'' ''Execution timeout after 200ms'' \<and> sublist ''timeout'' ''Execution timeout after 200ms''"
  using timeout_wins_race [of deadline_world timeout_200 200 two_logs]
  by (auto simp add: deadline_world_def timeout_200_def merge_options_def spread_def show_nat.simps)

text \<open>
  Claim C8. Whenever the promise of a launched worker has settled, on whichever path (the
  worker's message, its \<^verbatim>\<open>error\<close> event, its exit with a code other than 0, or the
  timeout), and whatever events came before or after, the worker thread is no longer
  running and no timeout is left scheduled. On the message and the timeout path the handler
  calls \<^verbatim>\<open>worker.terminate()\<close>; when \<^verbatim>\<open>error\<close> or \<^verbatim>\<open>exit\<close> is emitted the thread has stopped
  already.
\<close>

theorem worker_stopped_once_settled:
  assumes "promise (executeInWorker options logs0 events) = Some s"
  shows "\<not> worker_running (executeInWorker options logs0 events)
       \<and> \<not> timer_armed (executeInWorker options logs0 events)"
  unfolding executeInWorker_def
proof (rule foldl_deliver_invariant)
  show "promise (foldl (deliver options)
           \<lparr>promise = None, timer_armed = timer_wanted options,
            terminate_called = False, worker_running = True\<rparr> events) \<noteq> None"
    using assms by (simp add: executeInWorker_def)
qed simp

theorem worker_stopped_once_settled_witness:
  "\<not> worker_running (executeInWorker timeout_200 []
        [WorkerMessage \<lparr>m_success = True, m_output = Some JNull, m_logs = Some [], m_error = None,
                        m_memoryUsed = Some 0\<rparr>])
   \<and> \<not> worker_running (executeInWorker timeout_200 [] [WorkerError \<lparr>message = ''x'', stack = ''Error: x''\<rparr>])
   \<and> \<not> worker_running (executeInWorker timeout_200 [] [WorkerExit 3])
   \<and> \<not> worker_running (executeInWorker timeout_200 [] [TimerFires])"
proof -
  have wanted: "timer_wanted timeout_200"
    by (simp add: timer_wanted_def timeout_200_def)
  show ?thesis
    using worker_stopped_once_settled [OF message_first [of timeout_200 "[]" _ "[]"]]
      worker_stopped_once_settled [OF error_first [of timeout_200 "[]" _ "[]"]]
      worker_stopped_once_settled [OF exit_first [of 3 timeout_200 "[]" "[]"]]
      worker_stopped_once_settled [OF timer_first_rejects [OF wanted, of "[]" "[]"]]
    by simp
qed

section \<open>Successful results\<close>

text \<open>
  Claim C9 as stated fails: a fragment that returns nothing but calls
  \<^verbatim>\<open>parentPort.postMessage({success: true, output: 42})\<close> gets a successful result whose
  \<open>output\<close> is 42.
\<close>

theorem posted_output_counterexample:
  "ending posts_output = Completes
   \<and> result (execute demo_world posts_output no_options) =
       Returned \<lparr>success = True, output = Some (JNum 42), logs = [], error = None,
                 stats = \<lparr>duration = 42, memoryUsed = 0\<rparr>\<rparr>"
  by (simp add: run_defs demo_world_def posts_output_def no_options_def)

text \<open>
  Claim C9, amended. The \<open>output\<close> of every successful result is a copy of the \<^verbatim>\<open>output\<close> of
  the message that the parent received. When the wrapper posted that message (the fragment
  left \<^verbatim>\<open>parentPort\<close> and the rest of the wrapper alone), \<open>output\<close> is \<open>null\<close>, that is no output
  value, and the fragment ran to its end: a value given to a \<^verbatim>\<open>return\<close> statement is never
  carried over, since such a fragment posts no message. \<open>output\<close> holds a value only when the
  fragment itself posted a success message that holds one.
\<close>

theorem output_copies_message:
  assumes "result (execute w code options) = Returned r" and "success r"
  shows "\<exists>rep. wrapCode code = Posts rep \<and> m_success rep \<and> output r = m_output rep
           \<and> ((conduct code = Plain \<or> (\<exists>x. conduct code = Declares_logs x)) \<longrightarrow>
                 output r = Some JNull \<and> ending code = Completes)"
proof -
  obtain rep where rep: "wrapCode code = Posts rep" "m_success rep" "r = normalize w [] rep"
    using execute_success_cases [OF assms] by blast
  have out: "output r = m_output rep"
    using rep(2,3) by (simp add: normalize_def)
  have "m_output rep = Some JNull \<and> ending code = Completes"
    if "conduct code = Plain \<or> (\<exists>x. conduct code = Declares_logs x)"
    using wrapper_posts_cases [OF rep(1) that] rep(2) by auto
  then show ?thesis using rep(1,2) out by auto
qed

theorem output_copies_message_witness:
  "(\<exists>r. result (execute demo_world two_logs no_options) = Returned r \<and> success r
       \<and> output r = Some JNull \<and> ending two_logs = Completes)
   \<and> (\<exists>r. result (execute demo_world posts_output no_options) = Returned r \<and> success r
       \<and> output r = Some (JNum 42))"
proof -
  have plain: "result (execute demo_world two_logs no_options) =
       Returned \<lparr>success = True, output = Some JNull, logs = [''A'', ''B''], error = None,
                 stats = \<lparr>duration = 42, memoryUsed = 64\<rparr>\<rparr>"
    by (simp add: run_defs demo_world_def two_logs_def no_options_def)
  have posted: "result (execute demo_world posts_output no_options) =
       Returned \<lparr>success = True, output = Some (JNum 42), logs = [], error = None,
                 stats = \<lparr>duration = 42, memoryUsed = 0\<rparr>\<rparr>"
    by (simp add: run_defs demo_world_def posts_output_def no_options_def)
  show ?thesis
    using output_copies_message [OF plain] output_copies_message [OF posted] plain posted
    by (simp add: two_logs_def)
qed

section \<open>The two tiers and the three console channels\<close>






section \<open>The error field\<close>




section \<open>Calls that never return, files and lines that are lost\<close>

text \<open>
  \<^verbatim>\<open>execute\<close> never ends the host, and its promise stays pending in two cases only: the
  worker stopped with exit code 0 without a message, or it does nothing and no timer was
  set (a timeout that is 0 or \<^verbatim>\<open>undefined\<close>). For a fragment that leaves the wrapper alone
  that is: it left through \<^verbatim>\<open>return\<close>, it ended the worker with exit code 0, or it hangs
  without a timer.
\<close>

lemma execute_pending_cases:
  assumes "result (execute w code options) = NeverSettles"
  shows "writeFile_error w = None \<and> worker_start_error w = None
       \<and> (wrapCode code = Stops 0
            \<or> (wrapCode code = Silent \<and> \<not> timer_wanted (merge_options defaultOptions options)))"
proof -
  let ?opts = "merge_options defaultOptions options"
  let ?u = "wrapCode code"
  have w: "writeFile_error w = None"
    using assms by (cases "writeFile_error w") (simp_all add: execute_def)
  then have pending: "promise (executeInWorker ?opts [] (emitted w ?opts ?u)) = None"
    using assms by (simp add: execute_def Let_def split: option.splits settled.splits)
  have s: "worker_start_error w = None"
    using pending by (cases "worker_start_error w") (simp_all add: emitted_def error_first)
  have no_timer: "\<not> (timer_wanted ?opts \<and> (timer_first w \<or> ?u = Silent))"
    using pending s by (auto simp add: emitted_def timer_first_rejects)
  then have ev: "emitted w ?opts ?u = unit_events ?u"
    using s by (auto simp add: emitted_def)
  have "?u = Stops 0 \<or> ?u = Silent"
  proof (cases ?u)
    case (Posts rep)
    then show ?thesis using pending ev by (simp add: message_first)
  next
    case (Dies e)
    then show ?thesis using pending ev by (simp add: error_first)
  next
    case (Stops c)
    then show ?thesis using pending ev by (cases "c = 0") (simp_all add: exit_first)
  next
    case Silent
    then show ?thesis by simp
  qed
  then show ?thesis using w s no_timer by auto
qed

lemma plain_pending_cases:
  assumes "result (execute w code options) = NeverSettles" and "conduct code = Plain"
  shows "(\<exists>v. ending code = Returns v) \<or> ending code = Exits 0
       \<or> (ending code = Hangs \<and> \<not> timer_wanted (merge_options defaultOptions options))"
  using execute_pending_cases [OF assms(1)] assms(2)
  by (cases "ending code") (auto simp add: wrapCode_def wrapper_report_def)

lemma execute_keeps_host: "result (execute w code options) \<noteq> HostDown"
  by (simp add: execute_def Let_def split: option.splits settled.splits)

text \<open>
  Claim C4 at \<^verbatim>\<open>execute("console.log('A'); return;")\<close>: the worker exits with code 0 without
  a message, the \<^verbatim>\<open>exit\<close> handler clears the timeout and rejects nothing, and the promise of
  \<^verbatim>\<open>execute\<close> never settles.
\<close>

theorem early_return_never_settles:
  "result (execute demo_world log_then_return no_options) = NeverSettles"
  by (simp add: run_defs demo_world_def log_then_return_def no_options_def)

text \<open>
  What becomes of the temporary file and of the lines: after a report of the worker the
  file is removed (unless \<^verbatim>\<open>unlink\<close> fails, which is ignored) and the lines of the report
  are returned; after any rejection of \<^verbatim>\<open>executeInWorker\<close> the file is left and the result
  has no line.
\<close>

lemma temporary_file_removed_after_report:
  assumes "writeFile_error w = None" and "worker_start_error w = None" and "\<not> timer_first w"
    and "wrapCode code = Posts rep" and "\<not> unlink_fails w"
  shows "tempFile w \<notin> files_after (execute w code options)"
  using assms by (simp add: execute_def Let_def emitted_report message_first)

lemma rejection_leaves_file_and_no_line:
  assumes "writeFile_error w = None"
    and "promise (executeInWorker (merge_options defaultOptions options) []
           (emitted w (merge_options defaultOptions options) (wrapCode code))) = Some (Rejected e)"
  shows "tempFile w \<in> files_after (execute w code options)
       \<and> result (execute w code options) = Returned (caught w [] e)
       \<and> logs (caught w [] e) = []"
  using assms by (simp add: execute_def Let_def caught_def)

text \<open>
  Claim C6 at \<^verbatim>\<open>execute("console.log('A'); while(true){}", {timeout: 200})\<close>: the temporary
  file, which did not exist before, is still there when \<^verbatim>\<open>execute\<close> has returned the timeout
  failure; after a call whose worker reported, it is gone.
\<close>

theorem timeout_leaves_temporary_file:
  "tempFile demo_world \<notin> files demo_world
   \<and> tempFile demo_world \<in> files_after (execute demo_world log_then_loop timeout_200)
   \<and> tempFile demo_world \<notin> files_after (execute demo_world two_logs no_options)"
  by (simp add: run_defs demo_world_def log_then_loop_def two_logs_def timeout_200_def
        no_options_def)

text \<open>
  Claim C7 at the same call: the worker had pushed the line \<open>A\<close> before the timeout, and the
  result that \<^verbatim>\<open>execute\<close> returns has no line at all.
\<close>

theorem timeout_drops_logged_lines:
  "worker_logs (calls log_then_loop) = [''A'']
   \<and> result (execute demo_world log_then_loop timeout_200) =
       Returned \<lparr>success = False, output = None, logs = [],
                 error = Some ''Execution timeout after 200ms'',
                 stats = \<lparr>duration = 42, memoryUsed = 0\<rparr>\<rparr>"
  by (simp add: run_defs demo_world_def log_then_loop_def timeout_200_def show_nat.simps)

end
